theory Spec2Isabelle
  imports Main
begin

section \<open>The feedback service of \<^verbatim>\<open>main.py\<close>\<close>

text \<open>
  The module keeps two globals, the list \<^verbatim>\<open>feedback_db\<close> and the integer
  \<^verbatim>\<open>feedback_id_counter\<close>, and exposes two request handlers:
  \<^verbatim>\<open>submit_feedback\<close> and \<^verbatim>\<open>get_feedbacks\<close>. The globals become a record that the
  handlers take and return; Python's integers are \<open>int\<close>; an \<^verbatim>\<open>HTTPException\<close> is the
  left summand of the result. The handlers are modelled as they run in one thread: the
  lock of \<^verbatim>\<open>submit_feedback\<close> is taken and released inside one call and has no state
  of its own between calls. A Python string is a \<open>string\<close> here, the list of the bytes of
  its UTF-8 encoding: two Python strings are equal exactly when these lists are, and a
  Python string is empty exactly when its list is.
\<close>

subsection \<open>Data\<close>

text \<open>The dictionaries stored in \<^verbatim>\<open>feedback_db\<close>: keys \<^verbatim>\<open>id\<close>, \<^verbatim>\<open>email\<close>, \<^verbatim>\<open>message\<close>.\<close>

record feedback_record =
  id_rec :: int
  email_rec :: string
  message_rec :: string

text \<open>The globals of the module (lines 18 and 19).\<close>

record store =
  feedback_db :: "feedback_record list"
  feedback_id_counter :: int

definition initial_store :: store where
  "initial_store = \<lparr>feedback_db = [], feedback_id_counter = 1\<rparr>"

text \<open>
  The schemas. The field constraints of \<^verbatim>\<open>FeedbackIn\<close> (the syntax of the email, the
  length of the message) are checked by the framework before \<^verbatim>\<open>submit_feedback\<close> runs:
  the handler receives the validated object, whose email is the address as the type
  \<^verbatim>\<open>EmailStr\<close> has normalised it (a submitted \<^verbatim>\<open>A@B.com\<close> arrives as \<^verbatim>\<open>A@b.com\<close>).
\<close>

record FeedbackIn =
  email_in :: string
  message_in :: string

record FeedbackOut =
  id_out :: int
  email_out :: string
  message_out :: string

record FeedbackListOut =
  total :: int
  page :: int
  page_size :: int
  feedbacks :: "FeedbackOut list"

record FeedbackSubmitResponse =
  success :: bool
  message_resp :: string
  feedback :: FeedbackOut

text \<open>
  \<^verbatim>\<open>FeedbackOut(**fb)\<close>: the three keys of the dictionary become the three fields. The
  dictionaries of the store are built by \<^verbatim>\<open>submit_feedback\<close> from a validated
  \<^verbatim>\<open>FeedbackIn\<close>, so their emails are normalised addresses already, and on such an
  address the validation of the field \<^verbatim>\<open>email\<close> of \<^verbatim>\<open>FeedbackOut\<close> returns it as it is.
\<close>

definition FeedbackOut_of :: "feedback_record \<Rightarrow> FeedbackOut" where
  "FeedbackOut_of fb =
     \<lparr>id_out = id_rec fb, email_out = email_rec fb, message_out = message_rec fb\<rparr>"

text \<open>
  The failures of a request: the \<^verbatim>\<open>HTTPException\<close> with status 401 that the module
  raises, with its detail, and the framework's answer with status 422 to a parameter that
  fails the validation declared for it.
\<close>

datatype error = Unauthorized string | RequestValidationError

text \<open>
  A \<^verbatim>\<open>BackgroundTasks\<close> object is the queue of calls to make once the response has been
  sent; \<^verbatim>\<open>add_task\<close> puts a call at its end and runs nothing. The only function ever
  queued is \<^verbatim>\<open>send_confirmation_email\<close>, with its two arguments.
\<close>

datatype task = Send_confirmation_email string string

definition add_task :: "task list \<Rightarrow> task \<Rightarrow> task list" where
  "add_task background_tasks t = background_tasks @ [t]"

subsection \<open>Python's built-ins\<close>

text \<open>
  \<^verbatim>\<open>str.lower\<close> is a function of the interpreter, aware of all of Unicode. The handlers
  take it as their parameter \<open>lower\<close>, so every theorem below holds for whatever function
  it is. The examples need a function to evaluate: on ASCII text \<^verbatim>\<open>str.lower\<close> moves the
  letters \<^verbatim>\<open>A\<close> to \<^verbatim>\<open>Z\<close> (codes 65 to 90) up by 32 and leaves every other character,
  which is \<open>lower_ascii\<close>; the examples use ASCII text only.
\<close>

definition lower_char :: "char \<Rightarrow> char" where
  "lower_char c =
     (let n = (of_char c :: nat) in if 65 \<le> n \<and> n \<le> 90 then char_of (n + 32) else c)"

definition lower_ascii :: "string \<Rightarrow> string" where
  "lower_ascii s = map lower_char s"

text \<open>
  \<^verbatim>\<open>xs[start:stop]\<close> for integers: a negative bound counts from the end of the list,
  and both bounds are clamped to the list, so a slice never fails.
\<close>

definition slice_bound :: "int \<Rightarrow> int \<Rightarrow> nat" where
  "slice_bound n i = nat (if i < 0 then max (i + n) 0 else min i n)"

definition slice :: "'a list \<Rightarrow> int \<Rightarrow> int \<Rightarrow> 'a list" where
  "slice xs start stop =
     (let n = int (length xs);
          lo = slice_bound n start;
          hi = slice_bound n stop
      in take (hi - lo) (drop lo xs))"

subsection \<open>Authentication\<close>

definition ADMIN_TOKEN :: string where
  "ADMIN_TOKEN = ''secret-admin-token''"

definition get_admin_token :: "string \<Rightarrow> error + bool" where
  "get_admin_token token =
     (if token \<noteq> ADMIN_TOKEN then Inl (Unauthorized ''Invalid admin token.'')
      else Inr True)"

subsection \<open>The handlers\<close>

text \<open>
  \<^verbatim>\<open>submit_feedback\<close> (lines 84 to 99): under the lock it builds the dictionary, appends
  it and increments the counter; then it queues the confirmation and builds the response.
  The result is the response, the globals afterwards and the queue afterwards.
\<close>

definition submit_feedback ::
  "store \<Rightarrow> FeedbackIn \<Rightarrow> task list \<Rightarrow> FeedbackSubmitResponse \<times> store \<times> task list" where
  "submit_feedback s fb background_tasks =
     (let feedback_record =
            \<lparr>id_rec = feedback_id_counter s,
             email_rec = email_in fb,
             message_rec = message_in fb\<rparr>;
          s1 = s\<lparr>feedback_db := feedback_db s @ [feedback_record]\<rparr>;
          s2 = s1\<lparr>feedback_id_counter := feedback_id_counter s1 + 1\<rparr>;
          background_tasks' =
            add_task background_tasks
              (Send_confirmation_email (email_in fb) (message_in fb))
      in (\<lparr>success = True,
           message_resp = ''Feedback received. Confirmation email sent.'',
           feedback = FeedbackOut_of feedback_record\<rparr>,
          s2, background_tasks'))"

text \<open>
  The filter of \<^verbatim>\<open>get_feedbacks\<close> (lines 141 to 144). \<^verbatim>\<open>if email:\<close> is Python's
  truth test: \<^verbatim>\<open>None\<close> and the empty string are both false.
\<close>

definition filtered ::
  "(string \<Rightarrow> string) \<Rightarrow> store \<Rightarrow> string option \<Rightarrow> feedback_record list" where
  "filtered lower s email =
     (case email of
        None \<Rightarrow> feedback_db s
      | Some e \<Rightarrow>
          if e \<noteq> [] then filter (\<lambda>f. lower (email_rec f) = lower e) (feedback_db s)
          else feedback_db s)"

text \<open>
  \<^verbatim>\<open>get_feedbacks\<close> (lines 134 to 155). The dependency \<^verbatim>\<open>get_admin_token\<close> runs first
  and its exception ends the request. The handler assigns no global: the globals it
  returns are the ones it was given. This is the handler on the parameters it receives:
  the body is modelled as Python runs it on any integers and any optional string, and the
  theorems state the bounds they need. The validation that the framework applies to the
  query parameters before the body runs is \<open>get_feedbacks_route\<close> below.
\<close>

definition get_feedbacks ::
  "(string \<Rightarrow> string) \<Rightarrow> store \<Rightarrow> int \<Rightarrow> int \<Rightarrow> string option \<Rightarrow> string \<Rightarrow>
     (error + FeedbackListOut) \<times> store" where
  "get_feedbacks lower s pg pg_size email token =
     (case get_admin_token token of
        Inl e \<Rightarrow> (Inl e, s)
      | Inr token_auth \<Rightarrow>
          (let fs = filtered lower s email;
               tot = int (length fs);
               start = (pg - 1) * pg_size;
               stop = start + pg_size;
               paginated = slice fs start stop
           in (Inr \<lparr>total = tot, page = pg, page_size = pg_size,
                    feedbacks = map FeedbackOut_of paginated\<rparr>, s)))"



text \<open>
  \<^verbatim>\<open>send_confirmation_email\<close> (lines 54 to 56) prints one line and returns nothing: its
  effect is on the standard output, a list of lines here.
\<close>

definition send_confirmation_email :: "string \<Rightarrow> string \<Rightarrow> string list \<Rightarrow> string list" where
  "send_confirmation_email email message out =
     out @ [''Simulated email: Sending confirmation to '' @ email @
            '' for feedback: '' @ [CHR 0x27] @ message @ [CHR 0x27]]"

fun run_task :: "task \<Rightarrow> string list \<Rightarrow> string list" where
  "run_task (Send_confirmation_email email message) out =
     send_confirmation_email email message out"

subsection \<open>Sequences of requests\<close>

text \<open>
  A request names a handler and its arguments. Each request to \<^verbatim>\<open>submit_feedback\<close>
  comes with a \<^verbatim>\<open>BackgroundTasks\<close> object of its own, empty at first. \<open>handle\<close> gives
  the globals after one request, \<open>run\<close> after a sequence of them.
\<close>

datatype request =
  Submit_feedback FeedbackIn
| Get_feedbacks int int "string option" string

fun handle :: "(string \<Rightarrow> string) \<Rightarrow> store \<Rightarrow> request \<Rightarrow> store" where
  "handle lower s (Submit_feedback fb) = fst (snd (submit_feedback s fb []))"
| "handle lower s (Get_feedbacks pg pg_size email token) =
     snd (get_feedbacks lower s pg pg_size email token)"

fun run :: "(string \<Rightarrow> string) \<Rightarrow> store \<Rightarrow> request list \<Rightarrow> store" where
  "run lower s [] = s"
| "run lower s (r # rs) = run lower (handle lower s r) rs"

fun is_submit :: "request \<Rightarrow> bool" where
  "is_submit (Submit_feedback fb) = True"
| "is_submit (Get_feedbacks pg pg_size email token) = False"

subsection \<open>What has been submitted\<close>

text \<open>
  Two functions of the specification, used to state what the store holds: the inputs of
  the submissions among a sequence of requests, in order, and the records that result when
  these inputs are numbered from \<open>n\<close> on.
\<close>

fun submitted :: "request list \<Rightarrow> FeedbackIn list" where
  "submitted [] = []"
| "submitted (Submit_feedback fb # rs) = fb # submitted rs"
| "submitted (Get_feedbacks pg pg_size email token # rs) = submitted rs"

definition numbered :: "int \<Rightarrow> FeedbackIn list \<Rightarrow> feedback_record list" where
  "numbered n fbs =
     map (\<lambda>(i, fb). \<lparr>id_rec = n + int i, email_rec = email_in fb, message_rec = message_in fb\<rparr>)
       (enumerate 0 fbs)"

subsection \<open>Example request sequences\<close>

definition five_submissions :: "request list" where
  "five_submissions =
     [Submit_feedback \<lparr>email_in = ''u1@example.com'', message_in = ''First message''\<rparr>,
      Submit_feedback \<lparr>email_in = ''u2@example.com'', message_in = ''Second message''\<rparr>,
      Submit_feedback \<lparr>email_in = ''u3@example.com'', message_in = ''Third message''\<rparr>,
      Submit_feedback \<lparr>email_in = ''u4@example.com'', message_in = ''Fourth message''\<rparr>,
      Submit_feedback \<lparr>email_in = ''u5@example.com'', message_in = ''Fifth message''\<rparr>]"

definition two_submissions :: "request list" where
  "two_submissions =
     [Submit_feedback \<lparr>email_in = ''u1@example.com'', message_in = ''Great experience here!''\<rparr>,
      Submit_feedback \<lparr>email_in = ''u2@example.com'', message_in = ''I found a bug.''\<rparr>]"

definition mixed_case_submissions :: "request list" where
  "mixed_case_submissions =
     [Submit_feedback \<lparr>email_in = ''A@b.com'', message_in = ''Great experience here!''\<rparr>,
      Submit_feedback \<lparr>email_in = ''c@d.com'', message_in = ''I found a bug.''\<rparr>]"

section \<open>Properties\<close>

subsection \<open>Helper facts\<close>

lemma submit_feedback_eq:
  "submit_feedback s fb bg =
     (\<lparr>success = True,
       message_resp = ''Feedback received. Confirmation email sent.'',
       feedback = \<lparr>id_out = feedback_id_counter s, email_out = email_in fb,
                   message_out = message_in fb\<rparr>\<rparr>,
      s\<lparr>feedback_db :=
           feedback_db s @
             [\<lparr>id_rec = feedback_id_counter s, email_rec = email_in fb,
               message_rec = message_in fb\<rparr>],
        feedback_id_counter := feedback_id_counter s + 1\<rparr>,
      bg @ [Send_confirmation_email (email_in fb) (message_in fb)])"
  by (simp add: submit_feedback_def FeedbackOut_of_def add_task_def)

lemma get_feedbacks_store: "snd (get_feedbacks lower s pg pg_size email token) = s"
  by (simp add: get_feedbacks_def Let_def split: sum.split)

lemma upto_snoc: "[1..int n + 1] = [1..int n] @ [int n + 1]"
  by (simp add: upto_rec2)

text \<open>
  The invariant of the globals, from any state that satisfies it: the ids are
  \<open>1, \<dots>, k\<close> in this order and the counter is \<open>k + 1\<close>; a sequence of requests adds
  one id per submission.
\<close>

lemma run_ids:
  "map id_rec (feedback_db s) = [1..int k] \<Longrightarrow> feedback_id_counter s = int k + 1 \<Longrightarrow>
   map id_rec (feedback_db (run lower s rs)) = [1..int (k + length (filter is_submit rs))] \<and>
   feedback_id_counter (run lower s rs) = int (k + length (filter is_submit rs)) + 1"
proof (induction rs arbitrary: s k)
  case Nil
  then show ?case by simp
next
  case (Cons r rs)
  show ?case
  proof (cases r)
    case (Submit_feedback fb)
    have db: "map id_rec (feedback_db (handle lower s r)) = [1..int (Suc k)]"
      using Cons.prems upto_snoc [of k]
      by (simp add: Submit_feedback submit_feedback_eq add.commute)
    have cnt: "feedback_id_counter (handle lower s r) = int (Suc k) + 1"
      using Cons.prems by (simp add: Submit_feedback submit_feedback_eq)
    show ?thesis
      using Cons.IH [OF db cnt] by (simp add: Submit_feedback)
  next
    case (Get_feedbacks pg pg_size email token)
    then have "handle lower s r = s" by (simp add: get_feedbacks_store)
    then show ?thesis
      using Cons.IH [of s k] Cons.prems by (simp add: Get_feedbacks)
  qed
qed

lemma run_initial:
  "map id_rec (feedback_db (run lower initial_store rs)) = [1..int (length (filter is_submit rs))] \<and>
   feedback_id_counter (run lower initial_store rs) = int (length (filter is_submit rs)) + 1"
  using run_ids [where s = initial_store and k = 0 and lower = lower and rs = rs]
  by (simp add: initial_store_def)

text \<open>
  A slice with bounds that are not negative is \<open>take\<close> after \<open>drop\<close>: the clamped
  window of the list.
\<close>

lemma slice_bound_int: "slice_bound (int n) (int i) = min i n"
  by (simp add: slice_bound_def min_def)

lemma slice_nat: "slice xs (int i) (int i + int j) = take j (drop i xs)"
proof -
  have hi: "slice_bound (int (length xs)) (int i + int j) = min (i + j) (length xs)"
    using slice_bound_int [of "length xs" "i + j"] by simp
  have "take (min (i + j) (length xs) - min i (length xs)) (drop (min i (length xs)) xs) =
        take j (drop i xs)"
  proof (cases "i \<le> length xs")
    case True
    then have "min (i + j) (length xs) - min i (length xs) = min j (length (drop i xs))"
      by (auto simp: min_def)
    with True show ?thesis by (simp add: min_def)
  next
    case False
    then show ?thesis by (simp add: min_def)
  qed
  then show ?thesis by (simp add: slice_def Let_def slice_bound_int hi)
qed

lemma slice_take_drop:
  assumes "0 \<le> a" and "0 \<le> b"
  shows "slice xs a (a + b) = take (nat b) (drop (nat a) xs)"
  using slice_nat [of xs "nat a" "nat b"] assms by simp

lemma take_drop_rest:
  assumes "0 \<le> a" and "int (length xs) < a + b"
  shows "take (nat b) (drop (nat a) xs) = drop (nat a) xs"
proof -
  have "length xs - nat a \<le> nat b" using assms by arith
  then show ?thesis by simp
qed

lemma get_feedbacks_authorized:
  "get_feedbacks lower s pg pg_size email ADMIN_TOKEN =
     (Inr \<lparr>total = int (length (filtered lower s email)), page = pg, page_size = pg_size,
           feedbacks = map FeedbackOut_of
             (slice (filtered lower s email) ((pg - 1) * pg_size) ((pg - 1) * pg_size + pg_size))\<rparr>,
      s)"
  by (simp add: get_feedbacks_def get_admin_token_def Let_def)

lemma numbered_Nil: "numbered n [] = []"
  by (simp add: numbered_def)

lemma numbered_Cons:
  "numbered n (fb # fbs) =
     \<lparr>id_rec = n, email_rec = email_in fb, message_rec = message_in fb\<rparr> # numbered (n + 1) fbs"
  by (simp add: numbered_def enumerate_Suc_eq comp_def case_prod_unfold add.assoc)

lemma run_db:
  "feedback_db (run lower s rs) = feedback_db s @ numbered (feedback_id_counter s) (submitted rs) \<and>
   feedback_id_counter (run lower s rs) = feedback_id_counter s + int (length (submitted rs))"
proof (induction rs arbitrary: s)
  case Nil
  show ?case by (simp add: numbered_Nil)
next
  case (Cons r rs)
  show ?case
  proof (cases r)
    case (Submit_feedback fb)
    show ?thesis
      using Cons.IH [of "handle lower s r"]
      by (simp add: Submit_feedback submit_feedback_eq numbered_Cons)
  next
    case (Get_feedbacks pg pg_size email token)
    show ?thesis
      using Cons.IH [of s] by (simp add: Get_feedbacks get_feedbacks_store)
  qed
qed

lemma lower_examples:
  "lower_ascii ''A@b.com'' = ''a@b.com''" "lower_ascii ''a@b.com'' = ''a@b.com''"
  "lower_ascii ''c@d.com'' = ''c@d.com''" "lower_ascii [] = []"
  by code_simp+

subsection \<open>Submission\<close>

text \<open>
  Claim C1. From any globals with counter \<open>n\<close> and for any input, \<^verbatim>\<open>submit_feedback\<close>
  builds the record with id \<open>n\<close> and the email and message of the input, puts it at the
  end of the store, sets the counter to \<open>n + 1\<close> and answers with that record. The first
  submission on the initial store answers with id 1 (the scenario of the specification,
  in full), and a submission after it with id 2.
\<close>

theorem submit_feedback_record:
  "submit_feedback s fb bg =
     (\<lparr>success = True,
       message_resp = ''Feedback received. Confirmation email sent.'',
       feedback = \<lparr>id_out = feedback_id_counter s, email_out = email_in fb,
                   message_out = message_in fb\<rparr>\<rparr>,
      s\<lparr>feedback_db :=
           feedback_db s @
             [\<lparr>id_rec = feedback_id_counter s, email_rec = email_in fb,
               message_rec = message_in fb\<rparr>],
        feedback_id_counter := feedback_id_counter s + 1\<rparr>,
      bg @ [Send_confirmation_email (email_in fb) (message_in fb)])
   \<and> fst (submit_feedback initial_store
            \<lparr>email_in = ''u1@example.com'', message_in = ''Great experience here!''\<rparr> [])
     = \<lparr>success = True,
        message_resp = ''Feedback received. Confirmation email sent.'',
        feedback = \<lparr>id_out = 1, email_out = ''u1@example.com'',
                    message_out = ''Great experience here!''\<rparr>\<rparr>
   \<and> id_out (feedback (fst (submit_feedback
         (handle lower initial_store
            (Submit_feedback
               \<lparr>email_in = ''u1@example.com'', message_in = ''Great experience here!''\<rparr>))
         fb2 bg2))) = 2"
  by (simp add: submit_feedback_eq initial_store_def)

subsection \<open>The ids of the store\<close>

text \<open>
  Claim C2. After any sequence of requests from the initial store, the ids of the stored
  records are \<open>1, 2, \<dots>, count\<close> in this order, where \<open>count\<close> is the number of stored
  records and also the number of submissions among the requests; the counter is
  \<open>count + 1\<close>; and the id that the next submission is answered with is greater than
  the id of every stored record.
\<close>

theorem ids_are_one_to_count:
  "map id_rec (feedback_db (run lower initial_store rs)) =
     [1..int (length (feedback_db (run lower initial_store rs)))]
   \<and> length (feedback_db (run lower initial_store rs)) = length (filter is_submit rs)
   \<and> feedback_id_counter (run lower initial_store rs) =
       int (length (feedback_db (run lower initial_store rs))) + 1
   \<and> (\<forall>r \<in> set (feedback_db (run lower initial_store rs)).
         id_rec r < id_out (feedback (fst (submit_feedback (run lower initial_store rs) fb bg))))"
proof -
  let ?s = "run lower initial_store rs"
  let ?k = "length (filter is_submit rs)"
  have ids: "map id_rec (feedback_db ?s) = [1..int ?k]"
    and cnt: "feedback_id_counter ?s = int ?k + 1"
    using run_initial [where lower = lower and rs = rs] by simp_all
  have "length (map id_rec (feedback_db ?s)) = length [1..int ?k]"
    by (simp only: ids)
  then have len: "length (feedback_db ?s) = ?k" by simp
  have "id_rec r < feedback_id_counter ?s" if "r \<in> set (feedback_db ?s)" for r
  proof -
    from that have "id_rec r \<in> set (map id_rec (feedback_db ?s))" by simp
    then have "id_rec r \<in> set [1..int ?k]" by (simp only: ids)
    then show ?thesis by (simp add: cnt)
  qed
  then show ?thesis
    using ids cnt len by (simp add: submit_feedback_eq)
qed

theorem ids_are_one_to_count_witness:
  "map id_rec (feedback_db (run lower_ascii initial_store
      [Submit_feedback \<lparr>email_in = ''u1@example.com'', message_in = ''Great experience here!''\<rparr>,
       Get_feedbacks 1 10 None ''secret-admin-token'',
       Submit_feedback \<lparr>email_in = ''u2@example.com'', message_in = ''I found a bug.''\<rparr>]))
     = [1, 2]
   \<and> id_out (feedback (fst (submit_feedback (run lower_ascii initial_store
      [Submit_feedback \<lparr>email_in = ''u1@example.com'', message_in = ''Great experience here!''\<rparr>,
       Get_feedbacks 1 10 None ''secret-admin-token'',
       Submit_feedback \<lparr>email_in = ''u2@example.com'', message_in = ''I found a bug.''\<rparr>])
      \<lparr>email_in = ''u3@example.com'', message_in = ''Third message.''\<rparr> []))) = 3"
  using ids_are_one_to_count
    [of lower_ascii
      "[Submit_feedback \<lparr>email_in = ''u1@example.com'', message_in = ''Great experience here!''\<rparr>,
       Get_feedbacks 1 10 None ''secret-admin-token'',
       Submit_feedback \<lparr>email_in = ''u2@example.com'', message_in = ''I found a bug.''\<rparr>]"
      "\<lparr>email_in = ''u3@example.com'', message_in = ''Third message.''\<rparr>" "[]"]
  by (simp add: submit_feedback_eq get_feedbacks_store initial_store_def)

subsection \<open>Pagination\<close>

text \<open>
  Claim C3. With the right token, for any store, any email filter, any page that is at
  least 1 and any page size that is at least 1 (so also for every size from 1 to 50),
  \<^verbatim>\<open>get_feedbacks\<close> answers with the number of retained records as total and with the
  window of the retained records that starts at \<open>(page - 1) * page_size\<close> and has at
  most \<open>page_size\<close> records. When the start is at or past the total the page is empty;
  when the end is past the total the page is what remains from the start on. The
  witness is the example of the specification: five stored records, page 2 of size 2
  holds the third and fourth records, and page 10 of size 2 is empty with total 5.
\<close>

theorem get_feedbacks_page:
  assumes "1 \<le> pg" and "1 \<le> pg_size"
  shows "fst (get_feedbacks lower s pg pg_size email ADMIN_TOKEN) =
           Inr \<lparr>total = int (length (filtered lower s email)), page = pg, page_size = pg_size,
                feedbacks = map FeedbackOut_of
                  (take (nat pg_size) (drop (nat ((pg - 1) * pg_size)) (filtered lower s email)))\<rparr>
         \<and> (int (length (filtered lower s email)) \<le> (pg - 1) * pg_size \<longrightarrow>
              take (nat pg_size) (drop (nat ((pg - 1) * pg_size)) (filtered lower s email)) = [])
         \<and> (int (length (filtered lower s email)) < (pg - 1) * pg_size + pg_size \<longrightarrow>
              take (nat pg_size) (drop (nat ((pg - 1) * pg_size)) (filtered lower s email)) =
              drop (nat ((pg - 1) * pg_size)) (filtered lower s email))"
proof -
  have a: "0 \<le> (pg - 1) * pg_size" using assms by simp
  have b: "0 \<le> pg_size" using assms by simp
  have 1: "fst (get_feedbacks lower s pg pg_size email ADMIN_TOKEN) =
           Inr \<lparr>total = int (length (filtered lower s email)), page = pg, page_size = pg_size,
                feedbacks = map FeedbackOut_of
                  (take (nat pg_size) (drop (nat ((pg - 1) * pg_size)) (filtered lower s email)))\<rparr>"
    by (simp add: get_feedbacks_authorized slice_take_drop [OF a b])
  have 2: "take (nat pg_size) (drop (nat ((pg - 1) * pg_size)) (filtered lower s email)) = []"
    if "int (length (filtered lower s email)) \<le> (pg - 1) * pg_size"
    using that a by simp
  have 3: "take (nat pg_size) (drop (nat ((pg - 1) * pg_size)) (filtered lower s email)) =
              drop (nat ((pg - 1) * pg_size)) (filtered lower s email)"
    if "int (length (filtered lower s email)) < (pg - 1) * pg_size + pg_size"
    using a that by (rule take_drop_rest)
  from 1 2 3 show ?thesis by blast
qed

theorem get_feedbacks_page_witness:
  "fst (get_feedbacks lower_ascii (run lower_ascii initial_store five_submissions)
          2 2 None ADMIN_TOKEN) =
     Inr \<lparr>total = 5, page = 2, page_size = 2,
          feedbacks =
            [\<lparr>id_out = 3, email_out = ''u3@example.com'', message_out = ''Third message''\<rparr>,
             \<lparr>id_out = 4, email_out = ''u4@example.com'', message_out = ''Fourth message''\<rparr>]\<rparr>
   \<and> fst (get_feedbacks lower_ascii (run lower_ascii initial_store five_submissions)
          10 2 None ADMIN_TOKEN) =
     Inr \<lparr>total = 5, page = 10, page_size = 2, feedbacks = []\<rparr>"
  using get_feedbacks_page
      [where pg = 2 and pg_size = 2 and lower = lower_ascii and email = None
         and s = "run lower_ascii initial_store five_submissions"]
    get_feedbacks_page
      [where pg = 10 and pg_size = 2 and lower = lower_ascii and email = None
         and s = "run lower_ascii initial_store five_submissions"]
  by (simp add: five_submissions_def submit_feedback_eq initial_store_def filtered_def
      FeedbackOut_of_def)

subsection \<open>The email filter\<close>

text \<open>
  Claim C4. For any store and any email filter that is present, \<^verbatim>\<open>get_feedbacks\<close>
  retains exactly the records whose email equals the filter once both are lower-cased, in
  the order of the store, and pages over them; with no filter it retains every record. A
  filter that is present is an \<^verbatim>\<open>EmailStr\<close>, which is never the empty string: this is
  the hypothesis. The statement is for whatever function \<^verbatim>\<open>str.lower\<close> is. So a record
  just submitted is retained for every filter that its email equals up to case. The
  witness: the record submitted with \<^verbatim>\<open>A@B.com\<close>, which is stored and listed with the
  normalised \<^verbatim>\<open>A@b.com\<close>, is the only one of two returned for the filter \<^verbatim>\<open>a@b.com\<close>.
\<close>

theorem email_filter_case_insensitive:
  assumes "e \<noteq> []"
  shows "filtered lower s (Some e) =
           filter (\<lambda>f. lower (email_rec f) = lower e) (feedback_db s)
    \<and> filtered lower s None = feedback_db s
    \<and> fst (get_feedbacks lower s pg pg_size (Some e) ADMIN_TOKEN) =
        Inr \<lparr>total = int (length (filter (\<lambda>f. lower (email_rec f) = lower e) (feedback_db s))),
             page = pg, page_size = pg_size,
             feedbacks = map FeedbackOut_of
               (slice (filter (\<lambda>f. lower (email_rec f) = lower e) (feedback_db s))
                  ((pg - 1) * pg_size) ((pg - 1) * pg_size + pg_size))\<rparr>
    \<and> fst (get_feedbacks lower s pg pg_size None ADMIN_TOKEN) =
        Inr \<lparr>total = int (length (feedback_db s)), page = pg, page_size = pg_size,
             feedbacks = map FeedbackOut_of
               (slice (feedback_db s) ((pg - 1) * pg_size) ((pg - 1) * pg_size + pg_size))\<rparr>
    \<and> (lower (email_in fb) = lower e \<longrightarrow>
          \<lparr>id_rec = feedback_id_counter s, email_rec = email_in fb,
           message_rec = message_in fb\<rparr>
          \<in> set (filtered lower (fst (snd (submit_feedback s fb bg))) (Some e)))
    \<and> (lower (email_in fb) \<noteq> lower e \<longrightarrow>
          filtered lower (fst (snd (submit_feedback s fb bg))) (Some e) =
          filtered lower s (Some e))"
  using assms by (simp add: get_feedbacks_authorized filtered_def submit_feedback_eq)

theorem email_filter_case_insensitive_witness:
  "''a@b.com'' \<noteq> []
   \<and> lower_ascii ''A@b.com'' = lower_ascii ''a@b.com''
   \<and> lower_ascii ''c@d.com'' \<noteq> lower_ascii ''a@b.com''
   \<and> \<lparr>id_rec = 1, email_rec = ''A@b.com'', message_rec = ''Great experience here!''\<rparr>
       \<in> set (filtered lower_ascii
                (fst (snd (submit_feedback initial_store
                   \<lparr>email_in = ''A@b.com'', message_in = ''Great experience here!''\<rparr> [])))
                (Some ''a@b.com''))
   \<and> filtered lower_ascii
         (fst (snd (submit_feedback initial_store
            \<lparr>email_in = ''c@d.com'', message_in = ''I found a bug.''\<rparr> [])))
         (Some ''a@b.com'') = []
   \<and> fst (get_feedbacks lower_ascii (run lower_ascii initial_store mixed_case_submissions)
        1 10 (Some ''a@b.com'') ADMIN_TOKEN) =
     Inr \<lparr>total = 1, page = 1, page_size = 10,
          feedbacks =
            [\<lparr>id_out = 1, email_out = ''A@b.com'',
              message_out = ''Great experience here!''\<rparr>]\<rparr>"
  using email_filter_case_insensitive
    [where e = "''a@b.com''" and lower = lower_ascii and pg = 1 and pg_size = 10
       and s = "run lower_ascii initial_store mixed_case_submissions"]
    email_filter_case_insensitive
    [where e = "''a@b.com''" and lower = lower_ascii and s = initial_store and bg = "[]"
       and fb = "\<lparr>email_in = ''A@b.com'', message_in = ''Great experience here!''\<rparr>"]
    email_filter_case_insensitive
    [where e = "''a@b.com''" and lower = lower_ascii and s = initial_store and bg = "[]"
       and fb = "\<lparr>email_in = ''c@d.com'', message_in = ''I found a bug.''\<rparr>"]
  by (simp add: mixed_case_submissions_def submit_feedback_eq initial_store_def
      lower_examples slice_def slice_bound_def FeedbackOut_of_def)

subsection \<open>Authentication of the listing\<close>

text \<open>
  Claim C5. \<^verbatim>\<open>get_feedbacks\<close> fails with the unauthorized error exactly when the token
  differs from \<^verbatim>\<open>ADMIN_TOKEN\<close>; it fails with no other error; the failure is the same
  whatever the store and the other parameters are, so it carries no feedback data; and
  the store is unchanged by the request.
\<close>

theorem get_feedbacks_unauthorized:
  "(fst (get_feedbacks lower s pg pg_size email token) = Inl (Unauthorized ''Invalid admin token.''))
     = (token \<noteq> ADMIN_TOKEN)
   \<and> isl (fst (get_feedbacks lower s pg pg_size email token)) = (token \<noteq> ADMIN_TOKEN)
   \<and> (token \<noteq> ADMIN_TOKEN \<longrightarrow>
        fst (get_feedbacks lower s pg pg_size email token) =
        fst (get_feedbacks lower' s' pg' pg_size' email' token))
   \<and> snd (get_feedbacks lower s pg pg_size email token) = s"
  by (simp add: get_feedbacks_def get_admin_token_def Let_def)

theorem get_feedbacks_unauthorized_witness:
  "''guess'' \<noteq> ADMIN_TOKEN
   \<and> fst (get_feedbacks lower_ascii (run lower_ascii initial_store two_submissions) 1 10 None ''guess'') =
       Inl (Unauthorized ''Invalid admin token.'')
   \<and> fst (get_feedbacks lower_ascii (run lower_ascii initial_store two_submissions) 1 10 None ''guess'') =
       fst (get_feedbacks lower_ascii initial_store 3 5 (Some ''a@b.com'') ''guess'')"
  using get_feedbacks_unauthorized
    [where lower = lower_ascii and s = "run lower_ascii initial_store two_submissions"
       and pg = 1 and pg_size = 10 and email = None and token = "''guess''"
       and lower' = lower_ascii and s' = initial_store and pg' = 3 and pg_size' = 5
       and email' = "Some ''a@b.com''"]
  by (auto simp: ADMIN_TOKEN_def)

subsection \<open>Listing everything\<close>

text \<open>
  Claim C6. With no email filter, page 1 and a page size that is at least the number of
  stored records, \<^verbatim>\<open>get_feedbacks\<close> returns every stored record once, in the order of
  the store. After any sequence of requests from the initial store, the store holds
  exactly the submitted inputs in the order of their submission, numbered from 1 on, so
  this order is that of ascending ids.
\<close>

theorem get_feedbacks_all:
  "(int (length (feedback_db s)) \<le> pg_size \<longrightarrow>
      fst (get_feedbacks lower s 1 pg_size None ADMIN_TOKEN) =
        Inr \<lparr>total = int (length (feedback_db s)), page = 1, page_size = pg_size,
             feedbacks = map FeedbackOut_of (feedback_db s)\<rparr>)
   \<and> feedback_db (run lower initial_store rs) = numbered 1 (submitted rs)
   \<and> map id_rec (feedback_db (run lower initial_store rs)) = [1..int (length (submitted rs))]"
proof -
  have 1: "fst (get_feedbacks lower s 1 pg_size None ADMIN_TOKEN) =
        Inr \<lparr>total = int (length (feedback_db s)), page = 1, page_size = pg_size,
             feedbacks = map FeedbackOut_of (feedback_db s)\<rparr>"
    if "int (length (feedback_db s)) \<le> pg_size"
  proof -
    have "0 \<le> pg_size" using that by simp
    then have "slice (feedback_db s) 0 (0 + pg_size) = take (nat pg_size) (drop (nat 0) (feedback_db s))"
      by (intro slice_take_drop) simp_all
    moreover have "length (feedback_db s) \<le> nat pg_size" using that by simp
    ultimately have "slice (feedback_db s) 0 pg_size = feedback_db s" by simp
    then show ?thesis by (simp add: get_feedbacks_authorized filtered_def)
  qed
  have 2: "feedback_db (run lower initial_store rs) = numbered 1 (submitted rs)"
    using run_db [where lower = lower and s = initial_store and rs = rs]
    by (simp add: initial_store_def)
  have "length (submitted rs) = length (filter is_submit rs)"
    by (induction rs rule: submitted.induct) simp_all
  then have 3: "map id_rec (feedback_db (run lower initial_store rs)) = [1..int (length (submitted rs))]"
    using run_initial [where lower = lower and rs = rs] by simp
  from 1 2 3 show ?thesis by blast
qed

theorem get_feedbacks_all_witness:
  "int (length (feedback_db (run lower_ascii initial_store two_submissions))) \<le> 10
   \<and> fst (get_feedbacks lower_ascii (run lower_ascii initial_store two_submissions) 1 10 None ADMIN_TOKEN) =
     Inr \<lparr>total = 2, page = 1, page_size = 10,
          feedbacks =
            [\<lparr>id_out = 1, email_out = ''u1@example.com'',
              message_out = ''Great experience here!''\<rparr>,
             \<lparr>id_out = 2, email_out = ''u2@example.com'',
              message_out = ''I found a bug.''\<rparr>]\<rparr>"
  using get_feedbacks_all
    [where lower = lower_ascii and pg_size = 10
       and s = "run lower_ascii initial_store two_submissions"]
  by (simp add: two_submissions_def submit_feedback_eq initial_store_def FeedbackOut_of_def)

subsection \<open>The confirmation\<close>

text \<open>
  Claim C7. A call to \<^verbatim>\<open>submit_feedback\<close> puts exactly one call of
  \<^verbatim>\<open>send_confirmation_email\<close> at the end of the queue of background tasks, with the
  email and the message of the record it has just stored (the last one of the store), and
  runs none; its response and the store do not depend on the queue; running the queue of
  a single submission prints the one confirmation line.
\<close>

theorem confirmation_queued_once:
  "snd (snd (submit_feedback s fb bg)) =
     bg @ [Send_confirmation_email
             (email_rec (last (feedback_db (fst (snd (submit_feedback s fb bg))))))
             (message_rec (last (feedback_db (fst (snd (submit_feedback s fb bg))))))]
   \<and> snd (snd (submit_feedback s fb bg)) =
       bg @ [Send_confirmation_email (email_in fb) (message_in fb)]
   \<and> fst (submit_feedback s fb bg) = fst (submit_feedback s fb bg')
   \<and> fst (snd (submit_feedback s fb bg)) = fst (snd (submit_feedback s fb bg'))
   \<and> fold run_task (snd (snd (submit_feedback s fb []))) out =
       send_confirmation_email (email_in fb) (message_in fb) out"
  by (simp add: submit_feedback_eq)

subsection \<open>The store only grows\<close>

text \<open>
  Claim C8. \<^verbatim>\<open>submit_feedback\<close> leaves the stored records as they are and adds one
  record after them; \<^verbatim>\<open>get_feedbacks\<close> returns the globals it was given; so after one
  request, and after any sequence of requests, the store begins with the records it held
  before.
\<close>

theorem store_only_grows:
  "feedback_db (fst (snd (submit_feedback s fb bg))) =
     feedback_db s @
       [\<lparr>id_rec = feedback_id_counter s, email_rec = email_in fb, message_rec = message_in fb\<rparr>]
   \<and> snd (get_feedbacks lower s pg pg_size email token) = s
   \<and> take (length (feedback_db s)) (feedback_db (handle lower s r)) = feedback_db s
   \<and> take (length (feedback_db s)) (feedback_db (run lower s rs)) = feedback_db s"
proof -
  have "take (length (feedback_db s)) (feedback_db (handle lower s r)) = feedback_db s"
    by (cases r) (simp_all add: submit_feedback_eq get_feedbacks_store)
  then show ?thesis
    by (simp add: submit_feedback_eq get_feedbacks_store run_db)
qed

subsection \<open>The empty email filter\<close>




end
